theory Spec2Isabelle
  imports Main "HOL-Library.Word"
begin

section \<open>The SNPP client of package snpp (snpp.go)\<close>

text \<open>
  The package has three functions: \<^verbatim>\<open>read\<close> collects one response of the gateway from
  the connection, \<^verbatim>\<open>write\<close> sends one command through a buffered writer, and
  \<^verbatim>\<open>SendPage\<close> dials the gateway and runs the five rounds of the handshake.  The model
  below follows them line by line.  Go strings are byte sequences, so they are
  \<^typ>\<open>string\<close> here (a list of 8-bit characters).
\<close>

subsection \<open>Errors and results\<close>

text \<open>
  What \<^verbatim>\<open>net.DialTimeout\<close>, \<^verbatim>\<open>conn.Read\<close>, \<^verbatim>\<open>WriteString\<close> and \<^verbatim>\<open>Flush\<close> can
  return as a non-nil error: \<^verbatim>\<open>io.EOF\<close>, the error of an expired deadline,
  \<^verbatim>\<open>io.ErrShortWrite\<close> of the buffered writer, or any other error of the network
  stack (numbered, the number stands for its identity).
\<close>

datatype neterr = EOF | DeadlineExceeded | ErrShortWrite | OpError nat

text \<open>
  A value of Go's \<^verbatim>\<open>error\<close> as \<^verbatim>\<open>SendPage\<close> returns it: one of the five package-level
  values made by \<^verbatim>\<open>errors.New\<close> (lines 14 to 18), or an error that came from the
  network.  \<^verbatim>\<open>errors.New\<close> returns a fresh pointer, so no error of the network stack
  is equal to one of the five; the constructors keep them apart.  The nil error is
  \<open>None\<close> of the option type.
\<close>

datatype error =
    ErrFailedConnection
  | ErrRejectedPhone
  | ErrRejectedMessage
  | ErrFailedSend
  | ErrForceQuit
  | Transport neterr

text \<open>A call either returns a value or ends in a run-time panic.\<close>

datatype 'a outcome = Returns 'a | Panics

subsection \<open>The connection\<close>

text \<open>
  One call of \<^verbatim>\<open>conn.Read(readBuf)\<close> returns \<^verbatim>\<open>(n, readErr)\<close>: it has stored \<open>n\<close>
  bytes in \<^verbatim>\<open>readBuf\<close> (at most 256, the size of the buffer) and \<^verbatim>\<open>readErr\<close> is nil
  or an error.  A read event is the pair of the stored bytes and the error; \<open>n\<close> is the
  length of the bytes.

  One call of \<^verbatim>\<open>write\<close> calls \<^verbatim>\<open>WriteString\<close> and then, when that returned no error,
  \<^verbatim>\<open>Flush\<close>.  A write event is the pair of the errors the two calls return.
\<close>

type_synonym read_event = "string \<times> neterr option"
type_synonym write_event = "neterr option \<times> neterr option"

text \<open>
  The connection as the program sees it.  \<open>incoming\<close> lists the results of the calls of
  \<^verbatim>\<open>conn.Read\<close> still to come, in order; when the list is used up nothing more
  arrives, the next \<^verbatim>\<open>Read\<close> blocks until the deadline that \<^verbatim>\<open>read\<close> has set and
  returns the deadline's error.  \<open>pending\<close> lists the results of the calls of
  \<^verbatim>\<open>write\<close> still to come; when it is used up every later write succeeds.
  \<open>written\<close> records the strings handed to the connection's writer, one for each call
  of \<^verbatim>\<open>write\<close> (when the call fails, the gateway may have received only a part of
  the last one), and \<open>closes\<close> counts the calls of \<^verbatim>\<open>conn.Close\<close>.

  \<^verbatim>\<open>conn.SetDeadline\<close> (lines 22 and 48) changes none of these fields: wall-clock time
  is not part of the model, an expired deadline is a read or write event that carries
  \<^term>\<open>DeadlineExceeded\<close>.
\<close>

record conn =
  incoming :: "read_event list"
  pending :: "write_event list"
  written :: "string list"
  closes :: nat

text \<open>
  The gateway behind an address: what it will deliver to the reads and how the writes
  to it will end.  The network maps the address string given to \<^verbatim>\<open>net.DialTimeout\<close> to
  the error of a failed dial or to the gateway that answers.
\<close>

record gateway =
  reads :: "read_event list"
  wresults :: "write_event list"

type_synonym network = "string \<Rightarrow> neterr + gateway"

definition DialTimeout :: "network \<Rightarrow> string \<Rightarrow> neterr + conn" where
  "DialTimeout net addr =
     (case net addr of
        Inl connErr \<Rightarrow> Inl connErr
      | Inr g \<Rightarrow> Inr \<lparr>incoming = reads g, pending = wresults g, written = [], closes = 0\<rparr>)"

definition Close :: "conn \<Rightarrow> conn" where
  "Close c = c\<lparr>closes := closes c + 1\<rparr>"

subsection \<open>Strings\<close>

definition CRLF :: string where
  "CRLF = [CHR 0x0D, CHR 0x0A]"

text \<open>\<^verbatim>\<open>strings.HasPrefix(s, prefix)\<close>.\<close>

definition HasPrefix :: "string \<Rightarrow> string \<Rightarrow> bool" where
  "HasPrefix s p \<longleftrightarrow> length p \<le> length s \<and> take (length p) s = p"

text \<open>The verb \<^verbatim>\<open>%d\<close> of \<^verbatim>\<open>fmt.Sprintf\<close> on an unsigned integer: its decimal digits.\<close>

fun decimal :: "nat \<Rightarrow> string" where
  "decimal n =
     (if n < 10 then [''0123456789'' ! n]
      else decimal (n div 10) @ [''0123456789'' ! (n mod 10)])"

declare decimal.simps [simp del]

text \<open>\<^verbatim>\<open>fmt.Sprintf("%s:%d", address, port)\<close> with \<^verbatim>\<open>port uint64\<close> (line 73).\<close>

definition gateway_address :: "string \<Rightarrow> 64 word \<Rightarrow> string" where
  "gateway_address address port = address @ '':'' @ decimal (unat port)"

text \<open>\<^verbatim>\<open>fmt.Sprintf("PAGE %s \r\n", number)\<close> and \<^verbatim>\<open>fmt.Sprintf("MESS %s \r\n", message)\<close>
  (lines 87 and 98), and the two constant commands (lines 109 and 120).\<close>

definition PAGE :: "string \<Rightarrow> string" where
  "PAGE number = ''PAGE '' @ number @ '' '' @ CRLF"

definition MESS :: "string \<Rightarrow> string" where
  "MESS message = ''MESS '' @ message @ '' '' @ CRLF"

definition SEND :: string where
  "SEND = ''SEND '' @ CRLF"

definition QUIT :: string where
  "QUIT = ''QUIT '' @ CRLF"

subsection \<open>read (lines 20 to 44)\<close>

text \<open>
  The loop of \<^verbatim>\<open>read\<close>, over the read events still to come and the contents of
  \<^verbatim>\<open>bigBuffer\<close>; it returns what \<^verbatim>\<open>read\<close> returns and the events left.
  \<^item> No event left: \<^verbatim>\<open>conn.Read\<close> returns the deadline's error, which is not
    \<^verbatim>\<open>io.EOF\<close>, so \<^verbatim>\<open>read\<close> returns \<^verbatim>\<open>("", readErr)\<close> (line 30).
  \<^item> \<^verbatim>\<open>readErr != nil\<close> (line 28): an error other than \<^verbatim>\<open>io.EOF\<close> is returned with
    the empty string; \<^verbatim>\<open>io.EOF\<close> leaves the loop (line 32) and the buffer is returned
    (line 43).  The bytes of this event are not appended in either case.
  \<^item> Otherwise the \<open>n\<close> bytes are appended (line 35) and line 38 reads
    \<^verbatim>\<open>readBuf[n-2]\<close> and \<^verbatim>\<open>readBuf[n-1]\<close>.  \<open>n\<close> is an \<^verbatim>\<open>int\<close>: for \<open>n < 2\<close> the index
    \<open>n - 2\<close> is negative and the index expression panics.  For \<open>2 \<le> n\<close> both indices
    are inside the bytes just read.
\<close>

fun read_loop ::
  "read_event list \<Rightarrow> string \<Rightarrow> (string \<times> neterr option) outcome \<times> read_event list" where
  "read_loop [] bigBuffer = (Returns ('''', Some DeadlineExceeded), [])"
| "read_loop ((chunk, Some readErr) # rest) bigBuffer =
     (if readErr \<noteq> EOF then (Returns ('''', Some readErr), rest)
      else (Returns (bigBuffer, None), rest))"
| "read_loop ((chunk, None) # rest) bigBuffer =
     (let n = length chunk in
      if n < 2 then (Panics, rest)
      else if of_char (chunk ! (n - 2)) = (13::nat) \<and> of_char (chunk ! (n - 1)) = (10::nat)
        then (Returns (bigBuffer @ chunk, None), rest)
      else read_loop rest (bigBuffer @ chunk))"

definition read :: "conn \<Rightarrow> (string \<times> neterr option) outcome \<times> conn" where
  "read c = (case read_loop (incoming c) [] of (r, rest) \<Rightarrow> (r, c\<lparr>incoming := rest\<rparr>))"

subsection \<open>write (lines 46 to 56)\<close>

text \<open>
  \<^verbatim>\<open>write\<close> hands \<open>msg\<close> to a new buffered writer on the connection; it returns the
  error of \<^verbatim>\<open>WriteString\<close> when there is one (line 52) and the result of \<^verbatim>\<open>Flush\<close>
  otherwise (line 55).  The function is \<open>write_conn\<close> here, \<open>write\<close> being a keyword of
  Isabelle.
\<close>

definition write_conn :: "conn \<Rightarrow> string \<Rightarrow> neterr option \<times> conn" where
  "write_conn c msg =
     (case pending c of
        [] \<Rightarrow> (None, c\<lparr>written := written c @ [msg]\<rparr>)
      | (writeErr, flushErr) # rest \<Rightarrow>
          (case writeErr of Some e \<Rightarrow> Some e | None \<Rightarrow> flushErr,
           c\<lparr>pending := rest, written := written c @ [msg]\<rparr>))"

subsection \<open>SendPage (lines 71 to 132)\<close>

text \<open>
  The body of \<^verbatim>\<open>SendPage\<close> after the deferred \<^verbatim>\<open>conn.Close()\<close> is one definition for
  each round, the last round first: every definition is the code from its first
  line to the end of the function.  A panic of \<^verbatim>\<open>read\<close> is not recovered and ends
  \<^verbatim>\<open>SendPage\<close> too.
\<close>

text \<open>Lines 120 to 131.\<close>

definition quit_round :: "conn \<Rightarrow> error option outcome \<times> conn" where
  "quit_round c =
     (case write_conn c QUIT of
        (Some writeErr, c1) \<Rightarrow> (Returns (Some (Transport writeErr)), c1)
      | (None, c1) \<Rightarrow>
          (case read c1 of
             (Panics, c2) \<Rightarrow> (Panics, c2)
           | (Returns (msg, Some readErr), c2) \<Rightarrow> (Returns (Some (Transport readErr)), c2)
           | (Returns (msg, None), c2) \<Rightarrow>
               if \<not> HasPrefix msg ''221'' then (Returns (Some ErrForceQuit), c2)
               else (Returns None, c2)))"

text \<open>Lines 109 to 118, then the QUIT round.\<close>

definition send_round :: "conn \<Rightarrow> error option outcome \<times> conn" where
  "send_round c =
     (case write_conn c SEND of
        (Some writeErr, c1) \<Rightarrow> (Returns (Some (Transport writeErr)), c1)
      | (None, c1) \<Rightarrow>
          (case read c1 of
             (Panics, c2) \<Rightarrow> (Panics, c2)
           | (Returns (msg, Some readErr), c2) \<Rightarrow> (Returns (Some (Transport readErr)), c2)
           | (Returns (msg, None), c2) \<Rightarrow>
               if \<not> HasPrefix msg ''250'' then (Returns (Some ErrFailedSend), c2)
               else quit_round c2))"

text \<open>Lines 98 to 107, then the SEND round.\<close>

definition mess_round :: "conn \<Rightarrow> string \<Rightarrow> error option outcome \<times> conn" where
  "mess_round c message =
     (case write_conn c (MESS message) of
        (Some writeErr, c1) \<Rightarrow> (Returns (Some (Transport writeErr)), c1)
      | (None, c1) \<Rightarrow>
          (case read c1 of
             (Panics, c2) \<Rightarrow> (Panics, c2)
           | (Returns (msg, Some readErr), c2) \<Rightarrow> (Returns (Some (Transport readErr)), c2)
           | (Returns (msg, None), c2) \<Rightarrow>
               if \<not> HasPrefix msg ''250'' then (Returns (Some ErrRejectedMessage), c2)
               else send_round c2))"

text \<open>Lines 87 to 96, then the MESS round.\<close>

definition page_round :: "conn \<Rightarrow> string \<Rightarrow> string \<Rightarrow> error option outcome \<times> conn" where
  "page_round c number message =
     (case write_conn c (PAGE number) of
        (Some writeErr, c1) \<Rightarrow> (Returns (Some (Transport writeErr)), c1)
      | (None, c1) \<Rightarrow>
          (case read c1 of
             (Panics, c2) \<Rightarrow> (Panics, c2)
           | (Returns (msg, Some readErr), c2) \<Rightarrow> (Returns (Some (Transport readErr)), c2)
           | (Returns (msg, None), c2) \<Rightarrow>
               if \<not> HasPrefix msg ''250'' then (Returns (Some ErrRejectedPhone), c2)
               else mess_round c2 message))"

text \<open>Lines 79 to 85, then the PAGE round.\<close>

definition greeting_round :: "conn \<Rightarrow> string \<Rightarrow> string \<Rightarrow> error option outcome \<times> conn" where
  "greeting_round c number message =
     (case read c of
        (Panics, c1) \<Rightarrow> (Panics, c1)
      | (Returns (msg, Some readErr), c1) \<Rightarrow> (Returns (Some (Transport readErr)), c1)
      | (Returns (msg, None), c1) \<Rightarrow>
          if \<not> HasPrefix msg ''220'' then (Returns (Some ErrFailedConnection), c1)
          else page_round c1 number message)"

text \<open>
  Lines 73 to 77 and the function as a whole.  A failed dial returns its error and
  there is no connection.  Otherwise the deferred \<^verbatim>\<open>conn.Close()\<close> runs when the body
  is left, by a return or by a panic.  The result is what \<^verbatim>\<open>SendPage\<close> returns (or
  that it panicked) and the connection as it is left behind.
\<close>

definition SendPage ::
  "network \<Rightarrow> string \<Rightarrow> 64 word \<Rightarrow> string \<Rightarrow> string \<Rightarrow> error option outcome \<times> conn option" where
  "SendPage net address port number message =
     (case DialTimeout net (gateway_address address port) of
        Inl connErr \<Rightarrow> (Returns (Some (Transport connErr)), None)
      | Inr c \<Rightarrow>
          (case greeting_round c number message of
             (r, c') \<Rightarrow> (r, Some (Close c'))))"

subsection \<open>Notions used to state the properties\<close>

text \<open>
  A chunk ends with the terminator when it has at least two bytes and the last two are
  carriage return (13) and line feed (10): the test of line 38 where its indices exist.
\<close>

definition ends_crlf :: "string \<Rightarrow> bool" where
  "ends_crlf chunk \<longleftrightarrow>
     2 \<le> length chunk \<and> of_char (chunk ! (length chunk - 2)) = (13::nat) \<and>
     of_char (chunk ! (length chunk - 1)) = (10::nat)"

text \<open>A read event is whole when it carries no error and at least two bytes.\<close>

definition whole :: "read_event \<Rightarrow> bool" where
  "whole ev \<longleftrightarrow> snd ev = None \<and> 2 \<le> length (fst ev)"

text \<open>
  The number of carriage return, line feed pairs in a text, counted from the left:
  the number of protocol lines that the text completes on the wire.
\<close>

fun count_crlf :: "string \<Rightarrow> nat" where
  "count_crlf (a # b # rest) =
     (if a = CHR 0x0D \<and> b = CHR 0x0A then Suc (count_crlf rest) else count_crlf (b # rest))"
| "count_crlf _ = 0"

section \<open>Properties\<close>

subsection \<open>What read, write and the dial leave unchanged\<close>

lemma read_frame:
  "read c = (r, c') \<Longrightarrow> written c' = written c \<and> closes c' = closes c \<and> pending c' = pending c"
  by (auto simp: read_def split: prod.splits)

lemma write_conn_frame:
  "write_conn c msg = (r, c') \<Longrightarrow>
     written c' = written c @ [msg] \<and> closes c' = closes c \<and> incoming c' = incoming c"
  by (auto simp: write_conn_def split: list.splits prod.splits option.splits)

lemma DialTimeout_fresh:
  "DialTimeout net addr = Inr c \<Longrightarrow> written c = [] \<and> closes c = 0"
  by (auto simp: DialTimeout_def split: sum.splits)

lemma Close_written: "written (Close c) = written c"
  by (simp add: Close_def)

lemma HasPrefix_iff: "HasPrefix s p \<longleftrightarrow> (\<exists>trailing. s = p @ trailing)"
proof
  assume "HasPrefix s p"
  then have "s = p @ drop (length p) s"
    by (metis HasPrefix_def append_take_drop_id)
  then show "\<exists>trailing. s = p @ trailing" ..
next
  assume "\<exists>trailing. s = p @ trailing"
  then show "HasPrefix s p"
    by (auto simp: HasPrefix_def)
qed

lemmas rounds =
  SendPage_def greeting_round_def page_round_def mess_round_def send_round_def quit_round_def

text \<open>The definitions that evaluate a call of read or write on a given connection.\<close>

lemmas evaluate =
  read_def write_conn_def HasPrefix_def CRLF_def PAGE_def MESS_def SEND_def QUIT_def Close_def

subsection \<open>The loop of read\<close>


lemma read_loop_chunks:
  "\<forall>chunk\<in>set chunks. 2 \<le> length chunk \<and> \<not> ends_crlf chunk \<Longrightarrow>
     read_loop (map (\<lambda>chunk. (chunk, None)) chunks @ evs) buf = read_loop evs (buf @ concat chunks)"
  by (induction chunks arbitrary: buf) (auto simp: ends_crlf_def Let_def)

lemma whole_simps [simp]:
  "whole (chunk, readErr) \<longleftrightarrow> readErr = None \<and> 2 \<le> length chunk"
  by (simp add: whole_def)



subsection \<open>The commands written by each round\<close>

lemma quit_round_written:
  "quit_round c = (r, c') \<Longrightarrow> written c' = written c @ [QUIT]"
  by (auto simp: quit_round_def split: prod.splits option.splits outcome.splits if_splits
      dest!: read_frame write_conn_frame)

lemma send_round_written:
  "send_round c = (r, c') \<Longrightarrow>
     (written c' = written c @ [SEND] \<and> r \<noteq> Returns None) \<or> written c' = written c @ [SEND, QUIT]"
  by (auto simp: send_round_def split: prod.splits option.splits outcome.splits if_splits
      dest!: read_frame write_conn_frame quit_round_written)

lemma mess_round_written:
  "mess_round c message = (r, c') \<Longrightarrow>
     (written c' = written c @ [MESS message] \<and> r \<noteq> Returns None) \<or>
     (written c' = written c @ [MESS message, SEND] \<and> r \<noteq> Returns None) \<or>
     written c' = written c @ [MESS message, SEND, QUIT]"
  by (auto simp: mess_round_def split: prod.splits option.splits outcome.splits if_splits
      dest!: read_frame write_conn_frame send_round_written)

lemma page_round_written:
  "page_round c number message = (r, c') \<Longrightarrow>
     (written c' = written c @ [PAGE number] \<and> r \<noteq> Returns None) \<or>
     (written c' = written c @ [PAGE number, MESS message] \<and> r \<noteq> Returns None) \<or>
     (written c' = written c @ [PAGE number, MESS message, SEND] \<and> r \<noteq> Returns None) \<or>
     written c' = written c @ [PAGE number, MESS message, SEND, QUIT]"
  by (auto simp: page_round_def split: prod.splits option.splits outcome.splits if_splits
      dest!: read_frame write_conn_frame mess_round_written)

lemma greeting_round_written:
  "greeting_round c number message = (r, c') \<Longrightarrow>
     (written c' = written c \<and> r \<noteq> Returns None) \<or>
     (written c' = written c @ [PAGE number] \<and> r \<noteq> Returns None) \<or>
     (written c' = written c @ [PAGE number, MESS message] \<and> r \<noteq> Returns None) \<or>
     (written c' = written c @ [PAGE number, MESS message, SEND] \<and> r \<noteq> Returns None) \<or>
     written c' = written c @ [PAGE number, MESS message, SEND, QUIT]"
  by (auto simp: greeting_round_def split: prod.splits option.splits outcome.splits if_splits
      dest!: read_frame write_conn_frame page_round_written)

lemma SendPage_written:
  assumes "DialTimeout net (gateway_address address port) = Inr c0"
    and "SendPage net address port number message = (r, Some c)"
  shows "(written c = [] \<and> r \<noteq> Returns None) \<or>
     (written c = [PAGE number] \<and> r \<noteq> Returns None) \<or>
     (written c = [PAGE number, MESS message] \<and> r \<noteq> Returns None) \<or>
     (written c = [PAGE number, MESS message, SEND] \<and> r \<noteq> Returns None) \<or>
     written c = [PAGE number, MESS message, SEND, QUIT]"
proof -
  obtain c' where g: "greeting_round c0 number message = (r, c')" and c: "c = Close c'"
    using assms by (auto simp: SendPage_def split: prod.splits)
  have "written c0 = []"
    using DialTimeout_fresh [OF assms(1)] by simp
  with greeting_round_written [OF g] show ?thesis
    by (simp add: c Close_written)
qed

subsection \<open>The connection is not closed inside a round\<close>

lemma quit_round_closes: "closes (snd (quit_round c)) = closes c"
  by (auto simp: quit_round_def split: prod.splits option.splits outcome.splits
      dest!: read_frame write_conn_frame)

lemma send_round_closes: "closes (snd (send_round c)) = closes c"
  by (auto simp: send_round_def quit_round_closes split: prod.splits option.splits outcome.splits
      dest!: read_frame write_conn_frame)

lemma mess_round_closes: "closes (snd (mess_round c message)) = closes c"
  by (auto simp: mess_round_def send_round_closes split: prod.splits option.splits outcome.splits
      dest!: read_frame write_conn_frame)

lemma page_round_closes: "closes (snd (page_round c number message)) = closes c"
  by (auto simp: page_round_def mess_round_closes split: prod.splits option.splits outcome.splits
      dest!: read_frame write_conn_frame)

lemma greeting_round_closes: "closes (snd (greeting_round c number message)) = closes c"
  by (auto simp: greeting_round_def page_round_closes split: prod.splits option.splits outcome.splits
      dest!: read_frame write_conn_frame)

subsection \<open>The result does not depend on the pager number and the message\<close>

lemma read_written_update:
  "read (c\<lparr>written := w\<rparr>) = (fst (read c), (snd (read c))\<lparr>written := w\<rparr>)"
  by (simp add: read_def split: prod.split)

lemma write_conn_written_update:
  "write_conn (c\<lparr>written := w\<rparr>) other =
     (fst (write_conn c msg), (snd (write_conn c msg))\<lparr>written := w @ [other]\<rparr>)"
  by (simp add: write_conn_def split: list.split prod.split)

lemma quit_round_result:
  "fst (quit_round (c\<lparr>written := w\<rparr>)) = fst (quit_round c)"
  by (simp add: quit_round_def read_written_update
      write_conn_written_update [where other = QUIT and msg = QUIT]
      split: prod.split option.split outcome.split)

lemma send_round_result:
  "fst (send_round (c\<lparr>written := w\<rparr>)) = fst (send_round c)"
  by (simp add: send_round_def read_written_update
      write_conn_written_update [where other = SEND and msg = SEND]
      quit_round_result split: prod.split option.split outcome.split)

lemma mess_round_result:
  "fst (mess_round (c\<lparr>written := w\<rparr>) message_b) = fst (mess_round c message)"
  by (simp add: mess_round_def read_written_update
      write_conn_written_update [where other = "MESS message_b" and msg = "MESS message"]
      send_round_result split: prod.split option.split outcome.split)

lemma page_round_result:
  "fst (page_round (c\<lparr>written := w\<rparr>) number_b message_b) = fst (page_round c number message)"
  by (simp add: page_round_def read_written_update
      write_conn_written_update [where other = "PAGE number_b" and msg = "PAGE number"]
      mess_round_result [where message_b = message_b and message = message]
      split: prod.split option.split outcome.split)

lemma greeting_round_result:
  "fst (greeting_round c number_b message_b) = fst (greeting_round c number message)"
proof -
  have "fst (page_round c1 number_b message_b) = fst (page_round c1 number message)" for c1
    using page_round_result [where c = c1 and w = "written c1" and number_b = number_b
        and message_b = message_b and number = number and message = message]
    by simp
  then show ?thesis
    by (simp add: greeting_round_def split: prod.split option.split outcome.split)
qed

lemma fst_SendPage:
  "fst (SendPage net address port number message) =
     (case DialTimeout net (gateway_address address port) of
        Inl connErr \<Rightarrow> Returns (Some (Transport connErr))
      | Inr c \<Rightarrow> fst (greeting_round c number message))"
  by (simp add: SendPage_def split: sum.split prod.split)

lemma SendPage_result:
  "fst (SendPage net address port number_b message_b) = fst (SendPage net address port number message)"
  by (simp add: fst_SendPage split: sum.split
      add: greeting_round_result [where number_b = number_b and message_b = message_b
        and number = number and message = message])

subsection \<open>Counting protocol lines\<close>

lemma count_crlf_Cons: "a \<noteq> CHR 0x0D \<Longrightarrow> count_crlf (a # s) = count_crlf s"
  by (cases s) auto

lemma count_crlf_terminated: "count_crlf (s @ CHR '' '' # CRLF) = Suc (count_crlf s)"
  by (induction s rule: count_crlf.induct) (auto simp: CRLF_def)

lemma count_crlf_PAGE: "count_crlf (PAGE number) = Suc (count_crlf number)"
  by (simp add: PAGE_def count_crlf_Cons count_crlf_terminated)

lemma count_crlf_MESS: "count_crlf (MESS message) = Suc (count_crlf message)"
  by (simp add: MESS_def count_crlf_Cons count_crlf_terminated)

lemma count_crlf_SEND: "count_crlf SEND = 1"
  by (simp add: SEND_def CRLF_def)

lemma count_crlf_QUIT: "count_crlf QUIT = 1"
  by (simp add: QUIT_def CRLF_def)

section \<open>The claims\<close>

text \<open>
  In the statements below \<open>c0\<close> is the connection that the dial returns; the other
  connections and strings name what the calls of \<^verbatim>\<open>read\<close> and \<^verbatim>\<open>write\<close> of a run
  return, in the order of the code: \<open>greeting\<close> and \<open>c_greeting\<close> for the first read,
  \<open>c_page_sent\<close> for the write of the PAGE command, \<open>page_reply\<close> and \<open>c_page\<close> for the
  read that follows, and so on to \<open>quit_reply\<close> and \<open>c_quit\<close>.
\<close>



text \<open>
  C2.  The claim asks that a read of fewer than two bytes is taken as a chunk without
  terminator.  The code does not do that: line 38 indexes \<^verbatim>\<open>readBuf[n-2]\<close> with no test
  of \<open>n\<close>, and panics.  Here the gateway's greeting arrives in two reads, the line feed
  alone in the second: \<^verbatim>\<open>read\<close> panics, and \<^verbatim>\<open>SendPage\<close> with it.
\<close>

theorem read_short_chunk_panics:
  "read \<lparr>incoming = [(''220 SNPP ready'' @ [CHR 0x0D], None), ([CHR 0x0A], None)],
          pending = [], written = [], closes = 0\<rparr>
     = (Panics, \<lparr>incoming = [], pending = [], written = [], closes = 0\<rparr>) \<and>
   fst (SendPage
          (\<lambda>addr. Inr \<lparr>reads = [(''220 SNPP ready'' @ [CHR 0x0D], None), ([CHR 0x0A], None)],
                         wresults = []\<rparr>)
          ''gateway'' 444 ''5551212'' ''hello'')
     = Panics"
  by (simp add: rounds read_def DialTimeout_def)



text \<open>
  C4.  When the dial succeeds, the connection that \<^verbatim>\<open>SendPage\<close> leaves behind has been
  closed exactly once, whatever the run was: a nil result, one of the five errors, an
  error of the network, or a panic of \<^verbatim>\<open>read\<close>.
\<close>

theorem SendPage_closes_once:
  "DialTimeout net (gateway_address address port) = Inr c0 \<Longrightarrow>
     \<exists>r c. SendPage net address port number message = (r, Some c) \<and> closes c = 1"
  using greeting_round_closes [of c0 number message]
  by (auto simp: SendPage_def Close_def split: prod.splits dest!: DialTimeout_fresh)

theorem SendPage_closes_once_witness:
  "map_option closes (snd (SendPage
      (\<lambda>addr. if addr = ''gateway:444''
         then Inr \<lparr>reads = [(''220 ready'' @ CRLF, None), (''250 pager ok'' @ CRLF, None),
                             (''250 message ok'' @ CRLF, None), (''250 sent'' @ CRLF, None),
                             (''221 bye'' @ CRLF, None)],
                    wresults = []\<rparr>
         else Inl (OpError 111))
      ''gateway'' 444 ''5551212'' ''hello'')) = Some 1 \<and>
   map_option closes (snd (SendPage
      (\<lambda>addr. Inr \<lparr>reads = [(''220 ready'' @ CRLF, None), (''550 unknown pager'' @ CRLF, None)],
                      wresults = []\<rparr>)
      ''gateway'' 444 ''5551212'' ''hello'')) = Some 1 \<and>
   map_option closes (snd (SendPage
      (\<lambda>addr. Inr \<lparr>reads = [(''220 ready'' @ CRLF, None)],
                      wresults = [(None, Some ErrShortWrite)]\<rparr>)
      ''gateway'' 444 ''5551212'' ''hello'')) = Some 1 \<and>
   map_option closes (snd (SendPage
      (\<lambda>addr. Inr \<lparr>reads = [(''2'', None), (''20 ready'' @ CRLF, None)], wresults = []\<rparr>)
      ''gateway'' 444 ''5551212'' ''hello'')) = Some 1"
proof -
  have dial: "DialTimeout (\<lambda>addr. Inr g) (gateway_address ''gateway'' 444)
      = Inr \<lparr>incoming = reads g, pending = wresults g, written = [], closes = 0\<rparr>" for g
    by (simp add: DialTimeout_def)
  have once: "map_option closes (snd (SendPage (\<lambda>addr. Inr g) ''gateway'' 444 ''5551212'' ''hello''))
      = Some 1" for g
    using SendPage_closes_once [OF dial, of g "''5551212''" "''hello''"] by auto
  let ?g = "\<lparr>reads = [(''220 ready'' @ CRLF, None), (''250 pager ok'' @ CRLF, None),
                     (''250 message ok'' @ CRLF, None), (''250 sent'' @ CRLF, None),
                     (''221 bye'' @ CRLF, None)],
            wresults = []\<rparr>"
  let ?net = "\<lambda>addr. if addr = ''gateway:444'' then Inr ?g else Inl (OpError 111)"
  have "DialTimeout ?net (gateway_address ''gateway'' 444)
      = Inr \<lparr>incoming = reads ?g, pending = wresults ?g, written = [], closes = 0\<rparr>"
    by (simp add: DialTimeout_def gateway_address_def decimal.simps)
  from SendPage_closes_once [OF this, of "''5551212''" "''hello''"]
  have "map_option closes (snd (SendPage ?net ''gateway'' 444 ''5551212'' ''hello'')) = Some 1"
    by auto
  then show ?thesis
    by (intro conjI once)
qed

text \<open>
  C5, as amended.  When the stream signals the end of input (\<^verbatim>\<open>io.EOF\<close>) after chunks
  that have at least two bytes each and do not end with the terminator, \<^verbatim>\<open>read\<close>
  returns without error, and its value is the concatenation of these chunks.  The bytes
  that the call of \<^verbatim>\<open>conn.Read\<close> delivers together with \<^verbatim>\<open>io.EOF\<close> (\<open>final\<close>) are not
  part of the value: line 28 tests the error before line 35 appends.  What follows the
  end-of-input event stays on the connection.
\<close>

theorem read_end_of_input:
  assumes "incoming c = map (\<lambda>chunk. (chunk, None)) chunks @ (final, Some EOF) # rest"
    and "\<forall>chunk\<in>set chunks. 2 \<le> length chunk \<and> \<not> ends_crlf chunk"
  shows "read c = (Returns (concat chunks, None), c\<lparr>incoming := rest\<rparr>)"
  using read_loop_chunks [OF assms(2), of "(final, Some EOF) # rest" "[]"]
  by (simp add: read_def assms(1))

theorem read_end_of_input_witness:
  "read \<lparr>incoming = [(''220 SNPP '', None), (''Gateway'', None), ('' Ready'', Some EOF),
                      (''250 late'' @ CRLF, None)],
          pending = [], written = [], closes = 0\<rparr>
     = (Returns (''220 SNPP Gateway'', None),
        \<lparr>incoming = [(''250 late'' @ CRLF, None)], pending = [], written = [], closes = 0\<rparr>)"
  using read_end_of_input [where chunks = "[''220 SNPP '', ''Gateway'']" and final = "'' Ready''"
      and rest = "[(''250 late'' @ CRLF, None)]"
      and c = "\<lparr>incoming = [(''220 SNPP '', None), (''Gateway'', None), ('' Ready'', Some EOF),
                            (''250 late'' @ CRLF, None)],
                pending = [], written = [], closes = 0\<rparr>"]
  by (simp add: ends_crlf_def)

text \<open>
  C5 as it is written fails: here the last call of \<^verbatim>\<open>conn.Read\<close> returns the two bytes
  \<open>0\<close> and blank together with \<^verbatim>\<open>io.EOF\<close>, and \<^verbatim>\<open>read\<close> returns the text of the first
  chunk only, not the four bytes read.
\<close>

theorem read_drops_bytes_delivered_with_EOF:
  "read \<lparr>incoming = [(''22'', None), (''0 '', Some EOF)], pending = [], written = [], closes = 0\<rparr>
     = (Returns (''22'', None), \<lparr>incoming = [], pending = [], written = [], closes = 0\<rparr>) \<and>
   ''22'' \<noteq> ''22'' @ ''0 ''"
  by (simp add: read_def)

text \<open>
  C6.  For a pager number and a message without an embedded carriage return, line feed
  pair, the commands that \<^verbatim>\<open>SendPage\<close> writes are, in this order and byte for byte,
  \<^verbatim>\<open>PAGE\<close>, blank, the number, blank, CR, LF; \<^verbatim>\<open>MESS\<close>, blank, the message, blank, CR,
  LF; \<^verbatim>\<open>SEND\<close>, blank, CR, LF; and \<^verbatim>\<open>QUIT\<close>, blank, CR, LF.  A run that ends early has
  written the first of them; a run that returns nil has written all four.  Each
  command written is one protocol line.
\<close>

theorem SendPage_commands:
  assumes "count_crlf number = 0" and "count_crlf message = 0"
    and "DialTimeout net (gateway_address address port) = Inr c0"
    and "SendPage net address port number message = (r, Some c)"
  shows
    "written c = take (length (written c))
        [''PAGE '' @ number @ '' '' @ [CHR 0x0D, CHR 0x0A],
         ''MESS '' @ message @ '' '' @ [CHR 0x0D, CHR 0x0A],
         ''SEND '' @ [CHR 0x0D, CHR 0x0A],
         ''QUIT '' @ [CHR 0x0D, CHR 0x0A]] \<and>
     (r = Returns None \<longrightarrow> length (written c) = 4) \<and>
     (\<forall>command\<in>set (written c). count_crlf command = 1)"
proof -
  have cmds: "PAGE number = ''PAGE '' @ number @ '' '' @ [CHR 0x0D, CHR 0x0A]"
    "MESS message = ''MESS '' @ message @ '' '' @ [CHR 0x0D, CHR 0x0A]"
    "SEND = ''SEND '' @ [CHR 0x0D, CHR 0x0A]" "QUIT = ''QUIT '' @ [CHR 0x0D, CHR 0x0A]"
    by (simp_all add: PAGE_def MESS_def SEND_def QUIT_def CRLF_def)
  have lines: "count_crlf (PAGE number) = 1" "count_crlf (MESS message) = 1"
    "count_crlf SEND = 1" "count_crlf QUIT = 1"
    using assms(1,2) by (simp_all add: count_crlf_PAGE count_crlf_MESS count_crlf_SEND count_crlf_QUIT)
  from SendPage_written [OF assms(3,4)] lines show ?thesis
    unfolding cmds [symmetric] by auto
qed

theorem SendPage_commands_witness:
  "fst (SendPage
      (\<lambda>addr. Inr \<lparr>reads = [(''220 ready'' @ CRLF, None), (''250 pager ok'' @ CRLF, None),
                             (''250 message ok'' @ CRLF, None), (''250 sent'' @ CRLF, None),
                             (''221 bye'' @ CRLF, None)],
                      wresults = []\<rparr>)
      ''gateway'' 444 ''5551212'' ''Call the office'') = Returns None \<and>
   map_option written (snd (SendPage
      (\<lambda>addr. Inr \<lparr>reads = [(''220 ready'' @ CRLF, None), (''250 pager ok'' @ CRLF, None),
                             (''250 message ok'' @ CRLF, None), (''250 sent'' @ CRLF, None),
                             (''221 bye'' @ CRLF, None)],
                      wresults = []\<rparr>)
      ''gateway'' 444 ''5551212'' ''Call the office''))
     = Some [''PAGE 5551212 '' @ [CHR 0x0D, CHR 0x0A],
             ''MESS Call the office '' @ [CHR 0x0D, CHR 0x0A],
             ''SEND '' @ [CHR 0x0D, CHR 0x0A],
             ''QUIT '' @ [CHR 0x0D, CHR 0x0A]]"
proof -
  let ?g = "\<lparr>reads = [(''220 ready'' @ CRLF, None), (''250 pager ok'' @ CRLF, None),
                     (''250 message ok'' @ CRLF, None), (''250 sent'' @ CRLF, None),
                     (''221 bye'' @ CRLF, None)],
            wresults = []\<rparr>"
  let ?run = "SendPage (\<lambda>addr. Inr ?g) ''gateway'' 444 ''5551212'' ''Call the office''"
  have dial: "DialTimeout (\<lambda>addr. Inr ?g) (gateway_address ''gateway'' 444)
      = Inr \<lparr>incoming = reads ?g, pending = wresults ?g, written = [], closes = 0\<rparr>"
    by (simp add: DialTimeout_def)
  have nil: "fst ?run = Returns None"
    by (simp add: rounds DialTimeout_def evaluate)
  obtain c where run: "?run = (Returns None, Some c)"
    using nil by (cases ?run) (auto simp: SendPage_def DialTimeout_def split: prod.splits)
  have "count_crlf ''5551212'' = 0" and "count_crlf ''Call the office'' = 0"
    by simp_all
  note commands = SendPage_commands [OF this dial run]
  from commands have w: "written c = take (length (written c))
      [''PAGE '' @ ''5551212'' @ '' '' @ [CHR 0x0D, CHR 0x0A],
       ''MESS '' @ ''Call the office'' @ '' '' @ [CHR 0x0D, CHR 0x0A],
       ''SEND '' @ [CHR 0x0D, CHR 0x0A], ''QUIT '' @ [CHR 0x0D, CHR 0x0A]]"
    by (rule conjunct1)
  from commands have len: "length (written c) = 4"
    by blast
  from w have "written c = take 4
      [''PAGE '' @ ''5551212'' @ '' '' @ [CHR 0x0D, CHR 0x0A],
       ''MESS '' @ ''Call the office'' @ '' '' @ [CHR 0x0D, CHR 0x0A],
       ''SEND '' @ [CHR 0x0D, CHR 0x0A], ''QUIT '' @ [CHR 0x0D, CHR 0x0A]]"
    unfolding len .
  with nil run show ?thesis
    by simp
qed

text \<open>
  C7.  An error of the transport is an error of \<^verbatim>\<open>conn.Read\<close> other than \<^verbatim>\<open>io.EOF\<close> (after
  chunks that did not end the loop), which \<^verbatim>\<open>read\<close> returns with the empty string, or an
  error of \<^verbatim>\<open>WriteString\<close> or of \<^verbatim>\<open>Flush\<close>, which \<^verbatim>\<open>write\<close> returns.  When a call of
  \<^verbatim>\<open>read\<close> or \<^verbatim>\<open>write\<close> of the handshake returns an error \<open>e\<close>, \<^verbatim>\<open>SendPage\<close> returns this
  error, which is none of the five errors of the package, and the connection it leaves
  is the one right after the failed call, closed: no later step has read from it or
  written to it.  The nine places are the five reads and the four writes.
\<close>

theorem SendPage_transport_error:
  assumes "DialTimeout net (gateway_address address port) = Inr c0"
  shows
  "Transport e \<notin> {ErrFailedConnection, ErrRejectedPhone, ErrRejectedMessage, ErrFailedSend,
      ErrForceQuit} \<and>
   (incoming c = map (\<lambda>chunk. (chunk, None)) chunks @ (final, Some e) # rest \<and> e \<noteq> EOF \<and>
    (\<forall>chunk\<in>set chunks. 2 \<le> length chunk \<and> \<not> ends_crlf chunk) \<longrightarrow>
      read c = (Returns ('''', Some e), c\<lparr>incoming := rest\<rparr>)) \<and>
   (pending d = (Some e, flushErr) # later \<or> pending d = (None, Some e) # later \<longrightarrow>
      write_conn d msg = (Some e, d\<lparr>pending := later, written := written d @ [msg]\<rparr>)) \<and>
   (read c0 = (Returns (no_text, Some e), c_greeting) \<longrightarrow>
      SendPage net address port number message
        = (Returns (Some (Transport e)), Some (Close c_greeting))) \<and>
   (read c0 = (Returns (greeting, None), c_greeting) \<and> HasPrefix greeting ''220'' \<longrightarrow>
     (write_conn c_greeting (PAGE number) = (Some e, c_page_sent) \<longrightarrow>
        SendPage net address port number message
          = (Returns (Some (Transport e)), Some (Close c_page_sent))) \<and>
     (write_conn c_greeting (PAGE number) = (None, c_page_sent) \<longrightarrow>
       (read c_page_sent = (Returns (no_text, Some e), c_page) \<longrightarrow>
          SendPage net address port number message
            = (Returns (Some (Transport e)), Some (Close c_page))) \<and>
       (read c_page_sent = (Returns (page_reply, None), c_page) \<and> HasPrefix page_reply ''250'' \<longrightarrow>
         (write_conn c_page (MESS message) = (Some e, c_mess_sent) \<longrightarrow>
            SendPage net address port number message
              = (Returns (Some (Transport e)), Some (Close c_mess_sent))) \<and>
         (write_conn c_page (MESS message) = (None, c_mess_sent) \<longrightarrow>
           (read c_mess_sent = (Returns (no_text, Some e), c_mess) \<longrightarrow>
              SendPage net address port number message
                = (Returns (Some (Transport e)), Some (Close c_mess))) \<and>
           (read c_mess_sent = (Returns (mess_reply, None), c_mess) \<and>
            HasPrefix mess_reply ''250'' \<longrightarrow>
             (write_conn c_mess SEND = (Some e, c_send_sent) \<longrightarrow>
                SendPage net address port number message
                  = (Returns (Some (Transport e)), Some (Close c_send_sent))) \<and>
             (write_conn c_mess SEND = (None, c_send_sent) \<longrightarrow>
               (read c_send_sent = (Returns (no_text, Some e), c_send) \<longrightarrow>
                  SendPage net address port number message
                    = (Returns (Some (Transport e)), Some (Close c_send))) \<and>
               (read c_send_sent = (Returns (send_reply, None), c_send) \<and>
                HasPrefix send_reply ''250'' \<longrightarrow>
                 (write_conn c_send QUIT = (Some e, c_quit_sent) \<longrightarrow>
                    SendPage net address port number message
                      = (Returns (Some (Transport e)), Some (Close c_quit_sent))) \<and>
                 (write_conn c_send QUIT = (None, c_quit_sent) \<longrightarrow>
                   (read c_quit_sent = (Returns (no_text, Some e), c_quit) \<longrightarrow>
                      SendPage net address port number message
                        = (Returns (Some (Transport e)), Some (Close c_quit)))))))))))"
proof -
  have "read c = (Returns ('''', Some e), c\<lparr>incoming := rest\<rparr>)"
    if "incoming c = map (\<lambda>chunk. (chunk, None)) chunks @ (final, Some e) # rest"
      and "e \<noteq> EOF" and "\<forall>chunk\<in>set chunks. 2 \<le> length chunk \<and> \<not> ends_crlf chunk"
    using read_loop_chunks [OF that(3), of "(final, Some e) # rest" "[]"] that(1,2)
    by (simp add: read_def)
  moreover have "write_conn d msg = (Some e, d\<lparr>pending := later, written := written d @ [msg]\<rparr>)"
    if "pending d = (Some e, flushErr) # later \<or> pending d = (None, Some e) # later"
    using that by (auto simp: write_conn_def)
  ultimately show ?thesis
    using assms by (simp add: rounds)
qed

theorem SendPage_transport_error_witness:
  "SendPage (\<lambda>addr. Inr \<lparr>reads = [(''22'', None), ('''', Some (OpError 104))], wresults = []\<rparr>)
      ''gateway'' 444 ''5551212'' ''hello''
     = (Returns (Some (Transport (OpError 104))),
        Some \<lparr>incoming = [], pending = [], written = [], closes = 1\<rparr>) \<and>
   SendPage (\<lambda>addr. Inr \<lparr>reads = [(''220 ready'' @ CRLF, None), (''250 never read'' @ CRLF, None)],
                            wresults = [(Some (OpError 32), None)]\<rparr>)
      ''gateway'' 444 ''5551212'' ''hello''
     = (Returns (Some (Transport (OpError 32))),
        Some \<lparr>incoming = [(''250 never read'' @ CRLF, None)], pending = [],
              written = [''PAGE 5551212 '' @ CRLF], closes = 1\<rparr>) \<and>
   SendPage (\<lambda>addr. Inr \<lparr>reads = [(''220 ready'' @ CRLF, None), (''250 pager ok'' @ CRLF, None)],
                            wresults = []\<rparr>)
      ''gateway'' 444 ''5551212'' ''hello''
     = (Returns (Some (Transport DeadlineExceeded)),
        Some \<lparr>incoming = [], pending = [],
              written = [''PAGE 5551212 '' @ CRLF, ''MESS hello '' @ CRLF], closes = 1\<rparr>) \<and>
   SendPage (\<lambda>addr. Inr \<lparr>reads = [(''220 ready'' @ CRLF, None), (''250 pager ok'' @ CRLF, None),
                                     (''250 message ok'' @ CRLF, None), (''250 never read'' @ CRLF, None)],
                            wresults = [(None, None), (None, None), (None, Some ErrShortWrite)]\<rparr>)
      ''gateway'' 444 ''5551212'' ''hello''
     = (Returns (Some (Transport ErrShortWrite)),
        Some \<lparr>incoming = [(''250 never read'' @ CRLF, None)], pending = [],
              written = [''PAGE 5551212 '' @ CRLF, ''MESS hello '' @ CRLF, ''SEND '' @ CRLF],
              closes = 1\<rparr>) \<and>
   SendPage (\<lambda>addr. Inr \<lparr>reads = [(''220 ready'' @ CRLF, None), (''250 pager ok'' @ CRLF, None),
                                     (''250 message ok'' @ CRLF, None), (''250 sent'' @ CRLF, None),
                                     (''221 b'', None), (''ye'', Some DeadlineExceeded)],
                            wresults = []\<rparr>)
      ''gateway'' 444 ''5551212'' ''hello''
     = (Returns (Some (Transport DeadlineExceeded)),
        Some \<lparr>incoming = [], pending = [],
              written = [''PAGE 5551212 '' @ CRLF, ''MESS hello '' @ CRLF, ''SEND '' @ CRLF,
                         ''QUIT '' @ CRLF],
              closes = 1\<rparr>)"
proof -
  {
    fix g :: gateway and e :: neterr
    let ?c0 = "\<lparr>incoming = reads g, pending = wresults g, written = [], closes = 0\<rparr>"
    let ?c1 = "snd (read ?c0)"
    let ?c2 = "snd (write_conn ?c1 (PAGE ''5551212''))"
    let ?c3 = "snd (read ?c2)"
    let ?c4 = "snd (write_conn ?c3 (MESS ''hello''))"
    let ?c5 = "snd (read ?c4)"
    let ?c6 = "snd (write_conn ?c5 SEND)"
    let ?c7 = "snd (read ?c6)"
    let ?c8 = "snd (write_conn ?c7 QUIT)"
    let ?c9 = "snd (read ?c8)"
    have "DialTimeout (\<lambda>addr. Inr g) (gateway_address ''gateway'' 444) = Inr ?c0"
      by (simp add: DialTimeout_def)
    note SendPage_transport_error [OF this, where number = "''5551212''" and message = "''hello''"
        and e = e and no_text = "''''"
        and c = ?c0 and chunks = "map fst (butlast (reads g))"
        and final = "fst (last (reads g))" and rest = "[]"
        and d = ?c1 and flushErr = "snd (hd (wresults g))" and later = "tl (wresults g)"
        and msg = "PAGE ''5551212''"
        and greeting = "fst (reads g ! 0)" and c_greeting = ?c1 and c_page_sent = ?c2
        and page_reply = "fst (reads g ! 1)" and c_page = ?c3 and c_mess_sent = ?c4
        and mess_reply = "fst (reads g ! 2)" and c_mess = ?c5 and c_send_sent = ?c6
        and send_reply = "fst (reads g ! 3)" and c_send = ?c7 and c_quit_sent = ?c8
        and c_quit = ?c9]
  }
  note run = this
  show ?thesis
    using
      run [of "OpError 104"
          "\<lparr>reads = [(''22'', None), ('''', Some (OpError 104))], wresults = []\<rparr>"]
      run [of "OpError 32"
          "\<lparr>reads = [(''220 ready'' @ CRLF, None), (''250 never read'' @ CRLF, None)],
               wresults = [(Some (OpError 32), None)]\<rparr>"]
      run [of DeadlineExceeded
          "\<lparr>reads = [(''220 ready'' @ CRLF, None), (''250 pager ok'' @ CRLF, None)],
               wresults = []\<rparr>"]
      run [of ErrShortWrite
          "\<lparr>reads = [(''220 ready'' @ CRLF, None), (''250 pager ok'' @ CRLF, None),
                        (''250 message ok'' @ CRLF, None), (''250 never read'' @ CRLF, None)],
               wresults = [(None, None), (None, None), (None, Some ErrShortWrite)]\<rparr>"]
      run [of DeadlineExceeded
          "\<lparr>reads = [(''220 ready'' @ CRLF, None), (''250 pager ok'' @ CRLF, None),
                        (''250 message ok'' @ CRLF, None), (''250 sent'' @ CRLF, None),
                        (''221 b'', None), (''ye'', Some DeadlineExceeded)],
               wresults = []\<rparr>"]
    by (simp add: evaluate ends_crlf_def)
qed

text \<open>
  C9.  \<^verbatim>\<open>SendPage\<close> neither checks nor escapes the pager number and the message.  For all
  strings, the first command written is \<^verbatim>\<open>PAGE\<close>, blank, the number as it is, blank, CR,
  LF, and the second is \<^verbatim>\<open>MESS\<close>, blank, the message as it is, blank, CR, LF; so each
  carriage return, line feed pair inside an argument is one more protocol line on the
  wire.  The result of the run is the same for any other number and message: it depends
  on the gateway alone.
\<close>

theorem SendPage_verbatim:
  assumes "DialTimeout net (gateway_address address port) = Inr c0"
    and "SendPage net address port number message = (r, Some c)"
  shows
    "(0 < length (written c) \<longrightarrow>
        written c ! 0 = ''PAGE '' @ number @ '' '' @ [CHR 0x0D, CHR 0x0A] \<and>
        count_crlf (written c ! 0) = Suc (count_crlf number)) \<and>
     (1 < length (written c) \<longrightarrow>
        written c ! 1 = ''MESS '' @ message @ '' '' @ [CHR 0x0D, CHR 0x0A] \<and>
        count_crlf (written c ! 1) = Suc (count_crlf message)) \<and>
     fst (SendPage net address port other_number other_message) = r"
proof -
  have cmds: "PAGE number = ''PAGE '' @ number @ '' '' @ [CHR 0x0D, CHR 0x0A]"
    "MESS message = ''MESS '' @ message @ '' '' @ [CHR 0x0D, CHR 0x0A]"
    by (simp_all add: PAGE_def MESS_def CRLF_def)
  have "fst (SendPage net address port other_number other_message) = r"
    using SendPage_result [where number_b = other_number and message_b = other_message
        and number = number and message = message and net = net and address = address and port = port]
      assms(2) by simp
  with SendPage_written [OF assms] count_crlf_PAGE [of number] count_crlf_MESS [of message]
  show ?thesis
    unfolding cmds [symmetric] by auto
qed

theorem SendPage_verbatim_witness:
  "SendPage
      (\<lambda>addr. Inr \<lparr>reads = [(''220 ready'' @ CRLF, None), (''250 pager ok'' @ CRLF, None),
                             (''250 message ok'' @ CRLF, None), (''250 sent'' @ CRLF, None),
                             (''221 bye'' @ CRLF, None)],
                      wresults = []\<rparr>)
      ''gateway'' 444 (''5551212'' @ [CHR 0x0D, CHR 0x0A] @ ''QUIT'') (''a'' @ [CHR 0x0A] @ ''b'')
     = (Returns None,
        Some \<lparr>incoming = [], pending = [],
              written = [''PAGE 5551212'' @ [CHR 0x0D, CHR 0x0A] @ ''QUIT '' @ [CHR 0x0D, CHR 0x0A],
                         ''MESS a'' @ [CHR 0x0A] @ ''b '' @ [CHR 0x0D, CHR 0x0A],
                         ''SEND '' @ [CHR 0x0D, CHR 0x0A], ''QUIT '' @ [CHR 0x0D, CHR 0x0A]],
              closes = 1\<rparr>) \<and>
   count_crlf (''PAGE 5551212'' @ [CHR 0x0D, CHR 0x0A] @ ''QUIT '' @ [CHR 0x0D, CHR 0x0A]) = 2 \<and>
   fst (SendPage
      (\<lambda>addr. Inr \<lparr>reads = [(''220 ready'' @ CRLF, None), (''250 pager ok'' @ CRLF, None),
                             (''250 message ok'' @ CRLF, None), (''250 sent'' @ CRLF, None),
                             (''221 bye'' @ CRLF, None)],
                      wresults = []\<rparr>)
      ''gateway'' 444 ''5551212'' ''hello'') = Returns None"
proof -
  let ?g = "\<lparr>reads = [(''220 ready'' @ CRLF, None), (''250 pager ok'' @ CRLF, None),
                     (''250 message ok'' @ CRLF, None), (''250 sent'' @ CRLF, None),
                     (''221 bye'' @ CRLF, None)],
            wresults = []\<rparr>"
  let ?c = "\<lparr>incoming = [], pending = [],
              written = [''PAGE 5551212'' @ [CHR 0x0D, CHR 0x0A] @ ''QUIT '' @ [CHR 0x0D, CHR 0x0A],
                         ''MESS a'' @ [CHR 0x0A] @ ''b '' @ [CHR 0x0D, CHR 0x0A],
                         ''SEND '' @ [CHR 0x0D, CHR 0x0A], ''QUIT '' @ [CHR 0x0D, CHR 0x0A]],
              closes = 1\<rparr>"
  have dial: "DialTimeout (\<lambda>addr. Inr ?g) (gateway_address ''gateway'' 444)
      = Inr \<lparr>incoming = reads ?g, pending = wresults ?g, written = [], closes = 0\<rparr>"
    by (simp add: DialTimeout_def)
  have run: "SendPage (\<lambda>addr. Inr ?g) ''gateway'' 444
      (''5551212'' @ [CHR 0x0D, CHR 0x0A] @ ''QUIT'') (''a'' @ [CHR 0x0A] @ ''b'') = (Returns None, Some ?c)"
    by (simp add: rounds DialTimeout_def evaluate)
  from SendPage_verbatim [OF dial run, of "''5551212''" "''hello''"] run show ?thesis
    by simp
qed



end
